theory Spec2Isabelle
  imports Main
begin

section \<open>JavaScript values, completions and the host's deliveries\<close>

text \<open>
  The values setImmediate.js handles without looking inside them: the handler and the
  arguments given to \<open>setImmediate\<close>, and the \<open>data\<close> of a message event. The source
  only asks \<open>typeof v === "function"\<close> (true of \<open>JFunction\<close> alone) and
  \<open>typeof v === "string"\<close> (true of \<open>JString\<close> alone). A function or an object is
  known by its identity.
\<close>

datatype jsval =
    JUndefined
  | JNull
  | JBool bool
  | JNumber int
  | JString string
  | JFunction nat
  | JObject nat

text \<open>
  A call either returns or throws. The source has no \<open>throw\<close> of its own: a
  \<open>TypeError\<close> comes from calling a value that is not a function, every other
  exception comes out of a callback.
\<close>

datatype thrown = TypeError | Raised jsval

datatype completion = Normal | Throw thrown

text \<open>
  A handle reaches the registry in two forms: as the number that
  \<open>addFromSetImmediateArguments\<close> returned (the channel and the timer closures capture
  it, and callers hand it back to \<open>clearImmediate\<close>) and as the string the broadcast
  listener cuts out of a message. Both index the object \<open>tasksByHandle\<close>, whose property
  names are strings: a number is converted to its decimal numeral first. \<open>HNum n\<close>
  stands for the integer-valued number \<open>n\<close>; every handle the registry issues is such
  a number, at most \<open>2^53\<close>, and JavaScript writes these without an exponent.
\<close>

datatype handle_arg = HNum nat | HStr string

text \<open>The numeral of a number; \<open>digit\<close> is only applied to numbers below ten.\<close>

definition digit :: "nat \<Rightarrow> char" where
  "digit d = ''0123456789'' ! d"

fun decimal :: "nat \<Rightarrow> string" where
  "decimal n = (if n < 10 then [digit n] else decimal (n div 10) @ [digit (n mod 10)])"

declare decimal.simps [simp del]

fun to_key :: "handle_arg \<Rightarrow> string" where
  "to_key (HNum n) = decimal n"
| "to_key (HStr s) = s"

text \<open>\<open>function Task(handler, args)\<close>: the two fields of a task.\<close>

record task =
  handler :: jsval
  args :: "jsval list"

text \<open>
  What a task runs: \<open>this.handler.apply(undefined, this.args)\<close>, recorded with the
  receiver and the argument list passed, or \<open>eval("" + this.handler)\<close>, recorded with
  the value whose string conversion is evaluated.
\<close>

datatype code = Apply nat jsval "jsval list" | Eval jsval

text \<open>
  A message event as \<open>onGlobalMessage\<close> reads it: \<open>event.source\<close> is either this
  global object or something else, \<open>event.data\<close> is any value.
\<close>

datatype origin = ThisGlobal | Elsewhere nat

record event =
  source :: origin
  data :: jsval

text \<open>
  What the host can be asked to deliver later: the message sent through a fresh
  \<open>MessageChannel\<close> (its \<open>port1.onmessage\<close> closure holds the handle), a message event
  on the global object, or a function given to \<open>setTimeout(..., 0)\<close> (the closure holds
  the handle).
\<close>

datatype trigger = PortMessage nat | WindowMessage event | Timeout nat

section \<open>The task registry\<close>

text \<open>
  The closure state of \<open>tasks\<close>: \<open>nextHandle\<close> and \<open>tasksByHandle\<close> (its own
  properties, by name). Beside it the model keeps \<open>armed\<close>, the deliveries the host
  was asked for, in the order of the requests, and \<open>ran\<close>, the log of what was
  executed, each entry with the property name under which \<open>runIfPresent\<close> found the
  task.
\<close>

record world =
  nextHandle :: nat
  tasksByHandle :: "string \<rightharpoonup> task"
  armed :: "trigger list"
  ran :: "(string \<times> code) list"

text \<open>\<open>var nextHandle = 1; var tasksByHandle = {};\<close>\<close>

definition fresh :: world where
  "fresh = \<lparr>nextHandle = 1, tasksByHandle = Map.empty, armed = [], ran = []\<rparr>"

text \<open>
  \<open>nextHandle++\<close> on an IEEE double: the sum is exact up to \<open>2^53\<close>, and
  \<open>2^53 + 1\<close> rounds back to \<open>2^53\<close> (round to nearest, ties to even). Counting up
  from 1 never reaches a value above \<open>2^53\<close>.
\<close>

definition two53 :: nat where
  "two53 = 9007199254740992"

definition increment :: "nat \<Rightarrow> nat" where
  "increment n = (if n < two53 then n + 1 else n)"

text \<open>
  \<open>addFromSetImmediateArguments(args)\<close>: \<open>args[0]\<close> is the handler (\<open>undefined\<close> when
  there is none), \<open>slice(args, 1)\<close> the arguments to pass; the task is stored under the
  current \<open>nextHandle\<close>, which is returned and then incremented.
\<close>

definition addFromSetImmediateArguments :: "jsval list \<Rightarrow> world \<Rightarrow> nat \<times> world" where
  "addFromSetImmediateArguments arguments w =
     (let handler0 = (case arguments of [] \<Rightarrow> JUndefined | x # _ \<Rightarrow> x);
          argsToHandle = drop 1 arguments;
          task0 = \<lparr>handler = handler0, args = argsToHandle\<rparr>;
          thisHandle = nextHandle w
      in (thisHandle,
          w\<lparr>nextHandle := increment (nextHandle w),
            tasksByHandle := (tasksByHandle w)(decimal thisHandle \<mapsto> task0)\<rparr>))"

text \<open>
  \<open>remove(handle)\<close>: \<open>delete tasksByHandle[handle]\<close>. Deleting a property of a plain
  object returns normally whether the property is there or not.
\<close>

definition remove :: "handle_arg \<Rightarrow> world \<Rightarrow> world \<times> completion" where
  "remove h w = (w\<lparr>tasksByHandle := (tasksByHandle w)(to_key h := None)\<rparr>, Normal)"

section \<open>The trigger adapters\<close>

text \<open>
  The three \<open>attachTo.setImmediate\<close> closures the file defines. The broadcast one is
  made with the string of \<open>Math.random()\<close> it appended to its prefix.
\<close>

datatype adapter = MessageChannelImpl | PostMessageImpl string | SetTimeoutImpl

definition MESSAGE_PREFIX :: "string \<Rightarrow> string" where
  "MESSAGE_PREFIX rnd = ''com.bn.NobleJS.setImmediate'' @ rnd"

text \<open>
  Each closure registers the task, then arms its trigger with the handle:
  \<open>channel.port2.postMessage()\<close>, \<open>global.postMessage(MESSAGE_PREFIX + handle, "*")\<close>
  (string plus number: the decimal numeral is appended) or \<open>global.setTimeout(..., 0)\<close>.
\<close>

fun arm :: "adapter \<Rightarrow> nat \<Rightarrow> trigger" where
  "arm MessageChannelImpl h = PortMessage h"
| "arm (PostMessageImpl rnd) h =
     WindowMessage \<lparr>source = ThisGlobal, data = JString (MESSAGE_PREFIX rnd @ decimal h)\<rparr>"
| "arm SetTimeoutImpl h = Timeout h"

definition setImmediate :: "adapter \<Rightarrow> jsval list \<Rightarrow> world \<Rightarrow> nat \<times> world" where
  "setImmediate ad arguments w =
     (let (h, w1) = addFromSetImmediateArguments arguments w
      in (h, w1\<lparr>armed := armed w1 @ [arm ad h]\<rparr>))"

text \<open>\<open>attachTo.clearImmediate = tasks.remove\<close>\<close>

definition clearImmediate :: "handle_arg \<Rightarrow> world \<Rightarrow> world \<times> completion" where
  "clearImmediate h w = remove h w"

section \<open>Running a task\<close>

text \<open>
  A function given as handler is code of the caller, from outside the closure of this
  file: while it runs it is taken to reach the registry through the two public functions
  only, with any arguments, any number of times, and then it returns or throws.

  Text given as handler is another matter. \<open>eval(scriptSource)\<close> is a direct eval
  inside the closure that declares \<open>nextHandle\<close>, \<open>tasksByHandle\<close> and \<open>tasks\<close>, so
  the text can also assign the two variables and call \<open>tasks.runIfPresent\<close>,
  \<open>tasks.remove\<close> and \<open>tasks.addFromSetImmediateArguments\<close> itself. \<open>Inside r\<close> is
  such a stretch of the text, seen from outside: when it is over, the two variables hold
  the values in \<open>r\<close> (for \<open>nextHandle\<close> a natural number up to \<open>2^53\<close>; other values
  are not represented), the host has been asked for the deliveries in \<open>r\<close>, and the task
  bodies in \<open>r\<close> have been executed meanwhile. The text is taken to leave the functions
  of the file and \<open>Object.prototype\<close> as they are, and \<open>tasksByHandle\<close> an object.
\<close>

record reach =
  nextHandle_after :: nat
  tasksByHandle_after :: "string \<rightharpoonup> task"
  armed_more :: "trigger list"
  ran_more :: "(string \<times> code) list"

datatype action = CallSetImmediate "jsval list" | CallClearImmediate handle_arg | Inside reach

text \<open>
  An environment gives, for each piece of code and each state in which it starts, what
  the code does and how it ends.
\<close>

type_synonym env = "code \<Rightarrow> world \<Rightarrow> action list \<times> completion"

fun perform :: "adapter \<Rightarrow> action list \<Rightarrow> world \<Rightarrow> world" where
  "perform ad [] w = w"
| "perform ad (CallSetImmediate arguments # rest) w =
     perform ad rest (snd (setImmediate ad arguments w))"
| "perform ad (CallClearImmediate h # rest) w =
     perform ad rest (fst (clearImmediate h w))"
| "perform ad (Inside r # rest) w =
     perform ad rest
       (w\<lparr>nextHandle := nextHandle_after r, tasksByHandle := tasksByHandle_after r,
          armed := armed w @ armed_more r, ran := ran w @ ran_more r\<rparr>)"

text \<open>
  Of what the environment gives for a function, only the public calls take place; for
  evaluated text, all of it: this is the behaviour of the code. \<open>inner\<close> lists the
  task bodies that were executed inside.
\<close>

fun is_public :: "action \<Rightarrow> bool" where
  "is_public (CallSetImmediate _) = True"
| "is_public (CallClearImmediate _) = True"
| "is_public (Inside _) = False"

definition permitted :: "code \<Rightarrow> action list \<Rightarrow> action list" where
  "permitted c actions = (case c of Apply _ _ _ \<Rightarrow> filter is_public actions | Eval _ \<Rightarrow> actions)"

definition behaviour :: "env \<Rightarrow> code \<Rightarrow> world \<Rightarrow> action list \<times> completion" where
  "behaviour e c w = (permitted c (fst (e c w)), snd (e c w))"

definition inner :: "action list \<Rightarrow> (string \<times> code) list" where
  "inner actions =
     concat (map (\<lambda>a. case a of Inside r \<Rightarrow> ran_more r | _ \<Rightarrow> []) actions)"

text \<open>
  \<open>Task.prototype.run\<close>: a function handler is applied to the captured arguments with
  \<open>undefined\<close> as receiver; any other handler is converted to a string and evaluated.
\<close>

definition body :: "task \<Rightarrow> code" where
  "body t = (case handler t of JFunction f \<Rightarrow> Apply f JUndefined (args t) | v \<Rightarrow> Eval v)"

definition run :: "env \<Rightarrow> adapter \<Rightarrow> string \<Rightarrow> task \<Rightarrow> world \<Rightarrow> world \<times> completion" where
  "run e ad key t w =
     (let (actions, outcome) = behaviour e (body t) w
      in (perform ad actions (w\<lparr>ran := ran w @ [(key, body t)]\<rparr>), outcome))"

text \<open>
  \<open>tasksByHandle\<close> is an object literal, so \<open>tasksByHandle[handle]\<close> also finds what
  \<open>Object.prototype\<close> provides: these are the property names every ECMAScript 5 host
  defines there. Such a member is truthy and has no \<open>run\<close> method.
\<close>

definition Object_prototype :: "string list" where
  "Object_prototype =
     [''constructor'', ''toString'', ''toLocaleString'', ''valueOf'',
      ''hasOwnProperty'', ''isPrototypeOf'', ''propertyIsEnumerable'']"

datatype slot = Absent | Own task | Inherited

definition lookup :: "world \<Rightarrow> string \<Rightarrow> slot" where
  "lookup w key =
     (case tasksByHandle w key of
        Some t \<Rightarrow> Own t
      | None \<Rightarrow> if key \<in> set Object_prototype then Inherited else Absent)"

text \<open>
  \<open>runIfPresent(handle)\<close>: \<open>var task = tasksByHandle[handle]; if (task) { task.run();
  delete tasksByHandle[handle]; }\<close>. An exception out of \<open>task.run()\<close> leaves the
  function before the \<open>delete\<close>.
\<close>

definition runIfPresent :: "env \<Rightarrow> adapter \<Rightarrow> handle_arg \<Rightarrow> world \<Rightarrow> world \<times> completion" where
  "runIfPresent e ad h w =
     (case lookup w (to_key h) of
        Absent \<Rightarrow> (w, Normal)
      | Inherited \<Rightarrow> (w, Throw TypeError)
      | Own t \<Rightarrow>
          (case run e ad (to_key h) t w of
             (w1, Throw x) \<Rightarrow> (w1, Throw x)
           | (w1, Normal) \<Rightarrow> remove h w1))"

section \<open>The broadcast listener and the firing of a trigger\<close>

text \<open>
  \<open>isStringAndStartsWith(string, putativeStart)\<close>:
  \<open>typeof string === "string" && string.substring(0, putativeStart.length) === putativeStart\<close>
\<close>

definition isStringAndStartsWith :: "jsval \<Rightarrow> string \<Rightarrow> bool" where
  "isStringAndStartsWith v putativeStart =
     (case v of JString s \<Rightarrow> take (length putativeStart) s = putativeStart | _ \<Rightarrow> False)"

text \<open>
  \<open>onGlobalMessage(event)\<close>: only for a message of this global object whose data starts
  with the prefix, \<open>event.data.substring(MESSAGE_PREFIX.length)\<close> goes to
  \<open>runIfPresent\<close>.
\<close>

definition onGlobalMessage :: "env \<Rightarrow> adapter \<Rightarrow> string \<Rightarrow> event \<Rightarrow> world \<Rightarrow> world \<times> completion" where
  "onGlobalMessage e ad prefix ev w =
     (if source ev = ThisGlobal \<and> isStringAndStartsWith (data ev) prefix
      then (case data ev of
              JString s \<Rightarrow> runIfPresent e ad (HStr (drop (length prefix) s)) w
            | _ \<Rightarrow> (w, Normal))
      else (w, Normal))"

text \<open>
  The host delivers a trigger: the channel and the timer closures call
  \<open>tasks.runIfPresent(handle)\<close> with the number they captured; a message event on the
  global object goes to \<open>onGlobalMessage\<close>, which only the broadcast adapter registers.
\<close>

fun fire :: "env \<Rightarrow> adapter \<Rightarrow> trigger \<Rightarrow> world \<Rightarrow> world \<times> completion" where
  "fire e ad (PortMessage h) w = runIfPresent e ad (HNum h) w"
| "fire e ad (Timeout h) w = runIfPresent e ad (HNum h) w"
| "fire e ad (WindowMessage ev) w =
     (case ad of
        PostMessageImpl rnd \<Rightarrow> onGlobalMessage e ad (MESSAGE_PREFIX rnd) ev w
      | _ \<Rightarrow> (w, Normal))"

section \<open>The global object and the installation\<close>

text \<open>
  What the file can find or put on the global object: a value of the host or the page, or
  one of the functions the file itself creates. \<open>SetImmediate ad\<close> is the closure that
  \<open>setImmediate ad\<close> above describes, \<open>TasksRemove\<close> is \<open>tasks.remove\<close>,
  \<open>ProbeListener\<close> is the function \<open>canUsePostMessage\<close> puts in \<open>global.onmessage\<close>
  and \<open>OnGlobalMessage rnd\<close> is the listener of the broadcast adapter.
\<close>

datatype lib_function =
    SetImmediate adapter
  | TasksRemove
  | ProbeListener
  | OnGlobalMessage string

datatype property = Host jsval | Lib lib_function

text \<open>\<open>!!v\<close>: every function and object is truthy.\<close>

fun truthy :: "property \<Rightarrow> bool" where
  "truthy (Lib _) = True"
| "truthy (Host JUndefined) = False"
| "truthy (Host JNull) = False"
| "truthy (Host (JBool b)) = b"
| "truthy (Host (JNumber i)) = (i \<noteq> 0)"
| "truthy (Host (JString s)) = (s \<noteq> [])"
| "truthy (Host (JFunction _)) = True"
| "truthy (Host (JObject _)) = True"

text \<open>
  The global object: its own properties, the properties it inherits (those that
  \<open>Object.getPrototypeOf(global)\<close> has, own or inherited), whether
  \<open>typeof Object.getPrototypeOf === "function"\<close>, whether the host's \<open>postMessage\<close> runs
  the listeners before it returns, the string of the next \<open>Math.random()\<close>, the
  listeners registered with \<open>addEventListener\<close> or \<open>attachEvent\<close> (with the event
  name given), and the data of the messages posted to the global object and not yet
  delivered. A truthy \<open>postMessage\<close>, \<open>addEventListener\<close> or \<open>attachEvent\<close> is taken
  to be the host's function of that name, and the global object to have a prototype.
  What listeners of the page do with a message is not part of the model.
\<close>

record host =
  own :: "string \<rightharpoonup> property"
  proto :: "string \<rightharpoonup> property"
  getPrototypeOf_is_function :: bool
  postMessage_is_synchronous :: bool
  math_random :: string
  listeners :: "(string \<times> lib_function) list"
  posted :: "jsval list"

text \<open>\<open>global.name\<close>, read and assigned. An assignment makes or changes an own property.\<close>

definition global_get :: "host \<Rightarrow> string \<Rightarrow> property" where
  "global_get g name =
     (case own g name of
        Some v \<Rightarrow> v
      | None \<Rightarrow> (case proto g name of Some v \<Rightarrow> v | None \<Rightarrow> Host JUndefined))"

definition global_set :: "string \<Rightarrow> property \<Rightarrow> host \<Rightarrow> host" where
  "global_set name v g = g\<lparr>own := (own g)(name \<mapsto> v)\<rparr>"

text \<open>
  \<open>typeof Object.getPrototypeOf === "function" && "setTimeout" in Object.getPrototypeOf(global)
  ? Object.getPrototypeOf(global) : global\<close>
\<close>

datatype target = GlobalPrototype | GlobalItself

definition attachTo :: "host \<Rightarrow> target" where
  "attachTo g =
     (if getPrototypeOf_is_function g \<and> proto g ''setTimeout'' \<noteq> None
      then GlobalPrototype else GlobalItself)"

text \<open>\<open>attachTo.name = v\<close>, and the property \<open>name\<close> of that object itself.\<close>

fun attach :: "target \<Rightarrow> string \<Rightarrow> property \<Rightarrow> host \<Rightarrow> host" where
  "attach GlobalPrototype name v g = g\<lparr>proto := (proto g)(name \<mapsto> v)\<rparr>"
| "attach GlobalItself name v g = g\<lparr>own := (own g)(name \<mapsto> v)\<rparr>"

fun attached :: "target \<Rightarrow> host \<Rightarrow> string \<Rightarrow> property option" where
  "attached GlobalPrototype g name = proto g name"
| "attached GlobalItself g name = own g name"

text \<open>\<open>return !!(global.msSetImmediate && global.msClearImmediate);\<close>\<close>

definition hasMicrosoftImplementation :: "host \<Rightarrow> bool" where
  "hasMicrosoftImplementation g =
     (truthy (global_get g ''msSetImmediate'') \<and> truthy (global_get g ''msClearImmediate''))"

text \<open>\<open>return !!global.MessageChannel;\<close>\<close>

definition canUseMessageChannel :: "host \<Rightarrow> bool" where
  "canUseMessageChannel g = truthy (global_get g ''MessageChannel'')"

text \<open>
  The host's \<open>global.postMessage(data, "*")\<close>: a synchronous host calls
  \<open>global.onmessage\<close> before it returns, any other host queues the message. The second
  component tells whether the function that \<open>canUsePostMessage\<close> installed was called.
\<close>

definition host_postMessage :: "jsval \<Rightarrow> host \<Rightarrow> host \<times> bool" where
  "host_postMessage d g =
     (if postMessage_is_synchronous g
      then (g, global_get g ''onmessage'' = Lib ProbeListener)
      else (g\<lparr>posted := posted g @ [d]\<rparr>, False))"

text \<open>
  \<open>canUsePostMessage()\<close>: false at once without \<open>postMessage\<close> or with
  \<open>importScripts\<close>; otherwise the old \<open>global.onmessage\<close> is kept aside, the probe
  function takes its place, an empty message is posted, the old value is assigned back,
  and the answer is whether the probe function was not called.
\<close>

definition canUsePostMessage :: "host \<Rightarrow> host \<times> bool" where
  "canUsePostMessage g =
     (if \<not> truthy (global_get g ''postMessage'') \<or> truthy (global_get g ''importScripts'')
      then (g, False)
      else
        (let oldOnMessage = global_get g ''onmessage'';
             g1 = global_set ''onmessage'' (Lib ProbeListener) g;
             (g2, called) = host_postMessage (JString []) g1;
             g3 = global_set ''onmessage'' oldOnMessage g2
         in (g3, \<not> called)))"

text \<open>
  \<open>attachTo.setImmediate = global.msSetImmediate;
  attachTo.clearImmediate = global.msClearImmediate;\<close>
\<close>

definition aliasMicrosoftImplementation :: "target \<Rightarrow> host \<Rightarrow> host" where
  "aliasMicrosoftImplementation t g =
     (let g1 = attach t ''setImmediate'' (global_get g ''msSetImmediate'') g
      in attach t ''clearImmediate'' (global_get g1 ''msClearImmediate'') g1)"

definition installMessageChannelImplementation :: "target \<Rightarrow> host \<Rightarrow> host" where
  "installMessageChannelImplementation t g =
     attach t ''setImmediate'' (Lib (SetImmediate MessageChannelImpl)) g"

text \<open>
  \<open>installPostMessageImplementation\<close>: the prefix is made with \<open>Math.random()\<close>, the
  listener is registered with \<open>addEventListener("message", ...)\<close> if the global object
  has it and with \<open>attachEvent("onmessage", ...)\<close> if not, and then the closure is
  attached. Calling \<open>global.attachEvent\<close> when it is not there throws a \<open>TypeError\<close>
  before anything is attached.
\<close>

definition installPostMessageImplementation :: "target \<Rightarrow> host \<Rightarrow> host \<times> completion" where
  "installPostMessageImplementation t g =
     (let rnd = math_random g in
      if truthy (global_get g ''addEventListener'')
      then (attach t ''setImmediate'' (Lib (SetImmediate (PostMessageImpl rnd)))
              (g\<lparr>listeners := listeners g @ [(''message'', OnGlobalMessage rnd)]\<rparr>), Normal)
      else if truthy (global_get g ''attachEvent'')
      then (attach t ''setImmediate'' (Lib (SetImmediate (PostMessageImpl rnd)))
              (g\<lparr>listeners := listeners g @ [(''onmessage'', OnGlobalMessage rnd)]\<rparr>), Normal)
      else (g, Throw TypeError))"

definition installSetTimeoutImplementation :: "target \<Rightarrow> host \<Rightarrow> host" where
  "installSetTimeoutImplementation t g =
     attach t ''setImmediate'' (Lib (SetImmediate SetTimeoutImpl)) g"

text \<open>
  The block at the end of the file: nothing happens if \<open>global.setImmediate\<close> is truthy;
  otherwise the Microsoft pair is aliased, or the first adapter whose test succeeds is
  installed and \<open>tasks.remove\<close> becomes \<open>clearImmediate\<close>.
\<close>

definition install :: "host \<Rightarrow> host \<times> completion" where
  "install g =
     (if truthy (global_get g ''setImmediate'') then (g, Normal)
      else
        (let t = attachTo g in
         if hasMicrosoftImplementation g then (aliasMicrosoftImplementation t g, Normal)
         else
           (case (if canUseMessageChannel g
                  then (installMessageChannelImplementation t g, Normal)
                  else (case canUsePostMessage g of
                          (g1, True) \<Rightarrow> installPostMessageImplementation t g1
                        | (g1, False) \<Rightarrow> (installSetTimeoutImplementation t g1, Normal))) of
              (g2, Throw x) \<Rightarrow> (g2, Throw x)
            | (g2, Normal) \<Rightarrow> (attach t ''clearImmediate'' (Lib TasksRemove) g2, Normal))))"

text \<open>
  Hosts to try the installation on: one with timers only; one with everything but a
  native \<open>setImmediate\<close>; Internet Explorer 10 with its prefixed pair; a browser with
  an asynchronous \<open>postMessage\<close> and a listener of the page in \<open>onmessage\<close>; a browser
  whose \<open>postMessage\<close> is synchronous; and a page that already has a function called
  \<open>setImmediate\<close> and no \<open>clearImmediate\<close>.
\<close>

definition timer_host :: host where
  "timer_host =
     \<lparr>own = Map.empty,
      proto = map_of [(''setTimeout'', Host (JFunction 1))],
      getPrototypeOf_is_function = True, postMessage_is_synchronous = False,
      math_random = ''0.5'', listeners = [], posted = []\<rparr>"

definition channel_host :: host where
  "channel_host =
     \<lparr>own = map_of [(''MessageChannel'', Host (JFunction 2))],
      proto = map_of [(''setTimeout'', Host (JFunction 1)), (''postMessage'', Host (JFunction 3)),
                      (''addEventListener'', Host (JFunction 4))],
      getPrototypeOf_is_function = True, postMessage_is_synchronous = False,
      math_random = ''0.5'', listeners = [], posted = []\<rparr>"

definition ie10_host :: host where
  "ie10_host =
     \<lparr>own = map_of [(''msSetImmediate'', Host (JFunction 5)), (''msClearImmediate'', Host (JFunction 6)),
                    (''MessageChannel'', Host (JFunction 2)), (''postMessage'', Host (JFunction 3)),
                    (''addEventListener'', Host (JFunction 4)), (''setTimeout'', Host (JFunction 1))],
      proto = Map.empty,
      getPrototypeOf_is_function = True, postMessage_is_synchronous = False,
      math_random = ''0.5'', listeners = [], posted = []\<rparr>"

definition browser_host :: host where
  "browser_host =
     \<lparr>own = map_of [(''onmessage'', Host (JFunction 9))],
      proto = map_of [(''setTimeout'', Host (JFunction 1)), (''postMessage'', Host (JFunction 3)),
                      (''addEventListener'', Host (JFunction 4))],
      getPrototypeOf_is_function = True, postMessage_is_synchronous = False,
      math_random = ''0.5'', listeners = [], posted = []\<rparr>"

definition ie8_host :: host where
  "ie8_host =
     \<lparr>own = map_of [(''setTimeout'', Host (JFunction 1)), (''postMessage'', Host (JFunction 3)),
                    (''attachEvent'', Host (JFunction 8))],
      proto = Map.empty,
      getPrototypeOf_is_function = False, postMessage_is_synchronous = True,
      math_random = ''0.5'', listeners = [], posted = []\<rparr>"

definition half_native_host :: host where
  "half_native_host =
     \<lparr>own = map_of [(''setImmediate'', Host (JFunction 7))],
      proto = map_of [(''setTimeout'', Host (JFunction 1)), (''postMessage'', Host (JFunction 3)),
                      (''addEventListener'', Host (JFunction 4))],
      getPrototypeOf_is_function = True, postMessage_is_synchronous = False,
      math_random = ''0.5'', listeners = [], posted = []\<rparr>"

section \<open>Concrete callbacks and states\<close>

text \<open>
  Two environments: every callback returns at once, or every callback throws at once;
  neither calls back into the public functions.
\<close>

definition quiet :: env where
  "quiet c w = ([], Normal)"

definition raising :: env where
  "raising c w = ([], Throw (Raised (JString ''boom'')))"


definition one_channel :: world where
  "one_channel = snd (setImmediate MessageChannelImpl [JFunction 0, JNumber 7] fresh)"

text \<open>
  Whether what a piece of code does includes \<open>clearImmediate\<close> of the handle with this
  property name, or a stretch inside the closure that leaves no entry under the name.
\<close>

definition cancels :: "string \<Rightarrow> action list \<Rightarrow> bool" where
  "cancels key actions =
     list_ex (\<lambda>a. case a of
                     CallClearImmediate h \<Rightarrow> to_key h = key
                   | CallSetImmediate _ \<Rightarrow> False
                   | Inside r \<Rightarrow> tasksByHandle_after r key = None) actions"

text \<open>
  Two handler texts and what they do. The first assigns the counter. The second calls
  \<open>tasks.runIfPresent(1)\<close>, once (\<open>this\<close> is the task, and it keeps a flag there): seen
  from the outer run of the task under handle 1, the text has been executed once more
  inside and the entry is gone.
\<close>

definition reset_text :: jsval where
  "reset_text = JString ''nextHandle = 1''"

definition rerun_text :: jsval where
  "rerun_text = JString ''if (!this.once) { this.once = true; tasks.runIfPresent(1); }''"

definition texts :: env where
  "texts c w =
     (if c = Eval reset_text
      then ([Inside \<lparr>nextHandle_after = 1, tasksByHandle_after = tasksByHandle w,
                     armed_more = [], ran_more = []\<rparr>], Normal)
      else if c = Eval rerun_text \<and> tasksByHandle w ''1'' = Some \<lparr>handler = rerun_text, args = []\<rparr>
      then ([Inside \<lparr>nextHandle_after = nextHandle w,
                     tasksByHandle_after = (tasksByHandle w)(''1'' := None),
                     armed_more = [], ran_more = [(''1'', Eval rerun_text)]\<rparr>], Normal)
      else ([], Normal))"

text \<open>The state after \<open>setImmediate("...")\<close> with each of the two texts as the first call.\<close>

definition reset_timer :: world where
  "reset_timer = snd (setImmediate SetTimeoutImpl [reset_text] fresh)"


text \<open>The state after the first call of the page with the broadcast adapter.\<close>

definition one_broadcast :: world where
  "one_broadcast = snd (setImmediate (PostMessageImpl ''0.5'') [JFunction 0] fresh)"

section \<open>What can happen after the file has run\<close>






fun is_text :: "string \<times> code \<Rightarrow> bool" where
  "is_text (key, Eval v) = True"
| "is_text (key, Apply f receiver arguments) = False"

definition no_text :: "(string \<times> code) list \<Rightarrow> bool" where
  "no_text entries = (filter is_text entries = [])"






section \<open>Decimal numerals as property names\<close>


lemma digit_inj: "a < 10 \<Longrightarrow> b < 10 \<Longrightarrow> digit a = digit b \<Longrightarrow> a = b"
proof -
  assume a: "a < 10" and b: "b < 10" and eq: "digit a = digit b"
  have d: "distinct ''0123456789''" by simp
  have "a < length ''0123456789''" "b < length ''0123456789''" using a b by simp_all
  with d eq show "a = b" unfolding digit_def by (simp only: nth_eq_iff_index_eq)
qed


lemma decimal_not_Nil: "decimal n \<noteq> []"
  by (subst decimal.simps) simp


text \<open>Different numbers have different numerals, so different handles never share a slot.\<close>

lemma decimal_inj: "decimal m = decimal n \<Longrightarrow> m = n"
proof (induction m arbitrary: n rule: decimal.induct)
  case (1 m)
  show ?case
  proof (cases "m < 10")
    case mlt: True
    show ?thesis
    proof (cases "n < 10")
      case True
      with mlt 1(2) show ?thesis by (simp add: decimal.simps [of m] decimal.simps [of n] digit_inj)
    next
      case False
      with mlt 1(2) decimal_not_Nil [of "n div 10"] show ?thesis
        by (simp add: decimal.simps [of m] decimal.simps [of n])
    qed
  next
    case mge: False
    show ?thesis
    proof (cases "n < 10")
      case True
      with mge 1(2) decimal_not_Nil [of "m div 10"] show ?thesis
        by (simp add: decimal.simps [of m] decimal.simps [of n])
    next
      case False
      with mge 1(2) have eq: "decimal (m div 10) = decimal (n div 10)"
        and d: "digit (m mod 10) = digit (n mod 10)"
        by (simp_all add: decimal.simps [of m] decimal.simps [of n])
      from 1(1) [OF mge eq] have "m div 10 = n div 10" .
      moreover from d have "m mod 10 = n mod 10" by (intro digit_inj) simp_all
      ultimately show ?thesis by (metis div_mult_mod_eq)
    qed
  qed
qed

lemma decimal_Suc_0: "decimal (Suc 0) = ''1''"
  by (simp add: decimal.simps digit_def)

lemma decimal_1: "decimal 1 = ''1''"
  by (simp add: decimal.simps digit_def)

lemma decimal_2: "decimal 2 = ''2''"
  by (simp add: decimal.simps digit_def)

lemma decimal_3: "decimal 3 = ''3''"
  by (simp add: decimal.simps digit_def)

lemmas eval_defs = setImmediate_def addFromSetImmediateArguments_def fresh_def runIfPresent_def
  lookup_def run_def body_def remove_def clearImmediate_def Object_prototype_def increment_def
  two53_def decimal_Suc_0 decimal_1 decimal_2 decimal_3 Let_def permitted_def behaviour_def

section \<open>Facts about the registry\<close>

lemma inner_Nil: "inner [] = []"
  by (simp add: inner_def)

lemma inner_Cons:
  "inner (a # acts) = (case a of Inside r \<Rightarrow> ran_more r | _ \<Rightarrow> []) @ inner acts"
  by (simp add: inner_def)

lemma ran_perform: "ran (perform ad acts w) = ran w @ inner acts"
  by (induction ad acts w rule: perform.induct)
     (simp_all add: inner_Nil inner_Cons setImmediate_def addFromSetImmediateArguments_def
        clearImmediate_def remove_def Let_def)

lemma inner_public: "inner (filter is_public acts) = []"
proof (induction acts)
  case Nil
  show ?case by (simp add: inner_Nil)
next
  case (Cons a acts)
  then show ?case by (cases a) (simp_all add: inner_Cons)
qed


lemma body_function: "body \<lparr>handler = JFunction f, args = as\<rparr> = Apply f JUndefined as"
  by (simp add: body_def)


lemma lookup_Own: "tasksByHandle w key = Some t \<Longrightarrow> lookup w key = Own t"
  by (simp add: lookup_def)

lemma behaviour_Apply: "inner (fst (behaviour e (Apply f u as) w)) = []"
  by (simp add: behaviour_def permitted_def inner_public)

lemma run_eq:
  "run e ad key t w =
     (perform ad (fst (behaviour e (body t) w)) (w\<lparr>ran := ran w @ [(key, body t)]\<rparr>),
      snd (behaviour e (body t) w))"
  by (simp add: run_def split_beta)

lemma run_ran:
  "ran (fst (run e ad key t w)) = ran w @ (key, body t) # inner (fst (behaviour e (body t) w))"
  by (simp add: run_eq ran_perform)

lemma perform_keeps:
  "\<not> cancels key acts \<Longrightarrow> tasksByHandle w key \<noteq> None \<Longrightarrow>
     tasksByHandle (perform ad acts w) key \<noteq> None"
proof (induction ad acts w rule: perform.induct)
  case (1 ad w)
  then show ?case by simp
next
  case (2 ad arguments rest w)
  then show ?case
    by (simp add: cancels_def setImmediate_def addFromSetImmediateArguments_def Let_def)
next
  case (3 ad h rest w)
  then show ?case
    by (auto simp: cancels_def clearImmediate_def remove_def)
next
  case (4 ad r rest w)
  then show ?case
    by (auto simp: cancels_def)
qed

lemma runIfPresent_Own:
  "tasksByHandle w (to_key h) = Some t \<Longrightarrow>
     runIfPresent e ad h w =
       (case snd (behaviour e (body t) w) of
          Normal \<Rightarrow> remove h (fst (run e ad (to_key h) t w))
        | Throw x \<Rightarrow> (fst (run e ad (to_key h) t w), Throw x))"
  by (simp add: runIfPresent_def lookup_Own run_eq split: completion.splits)

lemma runIfPresent_Own_Throw:
  "tasksByHandle w (to_key h) = Some t \<Longrightarrow> behaviour e (body t) w = (acts, Throw x) \<Longrightarrow>
     runIfPresent e ad h w
       = (perform ad acts (w\<lparr>ran := ran w @ [(to_key h, body t)]\<rparr>), Throw x)"
  by (simp add: runIfPresent_Own run_eq)

lemma runIfPresent_Own_ran:
  "tasksByHandle w (to_key h) = Some t \<Longrightarrow>
     ran (fst (runIfPresent e ad h w))
       = ran w @ (to_key h, body t) # inner (fst (behaviour e (body t) w))"
  by (simp add: runIfPresent_Own remove_def run_ran split: completion.splits)



section \<open>Two invocations of runIfPresent\<close>




section \<open>A callback that throws\<close>

text \<open>
  Claim C2, as far as the code goes: for every pending handle, when the code that
  \<open>runIfPresent(handle)\<close> runs throws, the exception leaves \<open>runIfPresent\<close> and the
  registry removes nothing: the state is the one the code left. Unless that code itself
  removed the entry, the entry is still pending, and a later \<open>runIfPresent(handle)\<close>
  executes the task then under the handle: the log holds two executions under the handle
  (each followed by what its text ran inside, which is nothing for a function).
\<close>

theorem runIfPresent_throw_keeps_task:
  "tasksByHandle w (to_key h) = Some t \<Longrightarrow> behaviour e (body t) w = (acts, Throw x) \<Longrightarrow>
     runIfPresent e ad h w = (perform ad acts (w\<lparr>ran := ran w @ [(to_key h, body t)]\<rparr>), Throw x) \<and>
     (\<not> cancels (to_key h) acts \<longrightarrow>
        tasksByHandle (fst (runIfPresent e ad h w)) (to_key h) \<noteq> None \<and>
        length (ran w) + 2 \<le> length (ran (fst (runIfPresent e ad h (fst (runIfPresent e ad h w))))) \<and>
        (\<exists>t1. tasksByHandle (fst (runIfPresent e ad h w)) (to_key h) = Some t1 \<and>
           ran (fst (runIfPresent e ad h (fst (runIfPresent e ad h w))))
             = ran w @ (to_key h, body t) # inner acts
               @ (to_key h, body t1)
                 # inner (fst (behaviour e (body t1) (fst (runIfPresent e ad h w))))))"
proof -
  assume own: "tasksByHandle w (to_key h) = Some t"
    and thr: "behaviour e (body t) w = (acts, Throw x)"
  let ?w1 = "perform ad acts (w\<lparr>ran := ran w @ [(to_key h, body t)]\<rparr>)"
  have first: "runIfPresent e ad h w = (?w1, Throw x)"
    using own thr by (rule runIfPresent_Own_Throw)
  have rest: "tasksByHandle (fst (runIfPresent e ad h w)) (to_key h) \<noteq> None \<and>
        length (ran w) + 2 \<le> length (ran (fst (runIfPresent e ad h (fst (runIfPresent e ad h w))))) \<and>
        (\<exists>t1. tasksByHandle (fst (runIfPresent e ad h w)) (to_key h) = Some t1 \<and>
           ran (fst (runIfPresent e ad h (fst (runIfPresent e ad h w))))
             = ran w @ (to_key h, body t) # inner acts
               @ (to_key h, body t1)
                 # inner (fst (behaviour e (body t1) (fst (runIfPresent e ad h w)))))"
    if nc: "\<not> cancels (to_key h) acts"
  proof -
    from own have "tasksByHandle (w\<lparr>ran := ran w @ [(to_key h, body t)]\<rparr>) (to_key h) \<noteq> None"
      by simp
    with nc have "tasksByHandle ?w1 (to_key h) \<noteq> None" by (rule perform_keeps)
    then obtain t1 where t1: "tasksByHandle ?w1 (to_key h) = Some t1" by blast
    have r1: "ran ?w1 = ran w @ (to_key h, body t) # inner acts"
      by (simp add: ran_perform)
    have r2: "ran (fst (runIfPresent e ad h ?w1))
                = ran ?w1 @ (to_key h, body t1) # inner (fst (behaviour e (body t1) ?w1))"
      using t1 by (rule runIfPresent_Own_ran)
    from r1 r2 have r3: "ran (fst (runIfPresent e ad h ?w1))
                = ran w @ (to_key h, body t) # inner acts
                  @ (to_key h, body t1) # inner (fst (behaviour e (body t1) ?w1))"
      by simp
    then have "length (ran w) + 2 \<le> length (ran (fst (runIfPresent e ad h ?w1)))"
      by simp
    with t1 r3 show ?thesis by (simp only: first fst_conv) blast
  qed
  with first show ?thesis by blast
qed

theorem runIfPresent_throw_keeps_task_witness:
  "tasksByHandle one_channel (to_key (HNum 1)) = Some \<lparr>handler = JFunction 0, args = [JNumber 7]\<rparr> \<and>
   behaviour raising (body \<lparr>handler = JFunction 0, args = [JNumber 7]\<rparr>) one_channel
     = ([], Throw (Raised (JString ''boom''))) \<and>
   \<not> cancels (to_key (HNum 1)) [] \<and>
   snd (runIfPresent raising MessageChannelImpl (HNum 1) one_channel) = Throw (Raised (JString ''boom'')) \<and>
   tasksByHandle (fst (runIfPresent raising MessageChannelImpl (HNum 1) one_channel)) (to_key (HNum 1)) \<noteq> None"
proof -
  have a: "tasksByHandle one_channel (to_key (HNum 1)) = Some \<lparr>handler = JFunction 0, args = [JNumber 7]\<rparr>"
    by (simp add: one_channel_def eval_defs)
  have b: "behaviour raising (body \<lparr>handler = JFunction 0, args = [JNumber 7]\<rparr>) one_channel
             = ([], Throw (Raised (JString ''boom'')))"
    by (simp add: raising_def behaviour_def permitted_def body_def)
  have c: "\<not> cancels (to_key (HNum 1)) []"
    by (simp add: cancels_def)
  note k = runIfPresent_throw_keeps_task
         [where e = raising and w = one_channel and h = "HNum 1" and ad = MessageChannelImpl, OF a b]
  from k have "snd (runIfPresent raising MessageChannelImpl (HNum 1) one_channel)
                 = Throw (Raised (JString ''boom''))"
    by (simp only: snd_conv)
  moreover from k c
  have "tasksByHandle (fst (runIfPresent raising MessageChannelImpl (HNum 1) one_channel))
          (to_key (HNum 1)) \<noteq> None"
    by blast
  ultimately
  have "snd (runIfPresent raising MessageChannelImpl (HNum 1) one_channel) = Throw (Raised (JString ''boom'')) \<and>
        tasksByHandle (fst (runIfPresent raising MessageChannelImpl (HNum 1) one_channel)) (to_key (HNum 1)) \<noteq> None"
    by blast
  with a b c show ?thesis by blast
qed

text \<open>
  The claim as it is written fails: after \<open>setImmediate(f, 7)\<close> with the channel adapter
  and a callback that throws, \<open>runIfPresent(1)\<close> throws and the entry of handle 1 is
  still in \<open>tasksByHandle\<close>.
\<close>

theorem runIfPresent_throw_counterexample:
  "snd (runIfPresent raising MessageChannelImpl (HNum 1) one_channel) = Throw (Raised (JString ''boom'')) \<and>
   tasksByHandle (fst (runIfPresent raising MessageChannelImpl (HNum 1) one_channel)) ''1''
     = Some \<lparr>handler = JFunction 0, args = [JNumber 7]\<rparr>"
  by (simp add: one_channel_def raising_def eval_defs)

section \<open>Cancelling\<close>


lemma setImmediate_handle: "fst (setImmediate ad a w) = nextHandle w"
  by (simp add: setImmediate_def addFromSetImmediateArguments_def Let_def)


lemma setImmediate_armed: "armed (snd (setImmediate ad a w)) = armed w @ [arm ad (nextHandle w)]"
  by (simp add: setImmediate_def addFromSetImmediateArguments_def Let_def)

lemma setImmediate_task:
  "tasksByHandle (snd (setImmediate ad a w)) (decimal (nextHandle w))
     = Some \<lparr>handler = (case a of [] \<Rightarrow> JUndefined | x # _ \<Rightarrow> x), args = drop 1 a\<rparr>"
  by (simp add: setImmediate_def addFromSetImmediateArguments_def Let_def)


lemma setImmediate_ran: "ran (snd (setImmediate ad a w)) = ran w"
  by (simp add: setImmediate_def addFromSetImmediateArguments_def Let_def)





text \<open>\<open>runIfPresent\<close> sees its argument only through the property name.\<close>

lemma runIfPresent_key:
  "to_key h = to_key h' \<Longrightarrow> runIfPresent e ad h w = runIfPresent e ad h' w"
  unfolding runIfPresent_def remove_def
  by (auto split: slot.splits prod.splits completion.splits)

text \<open>Delivering what an adapter armed for a handle is \<open>runIfPresent\<close> of that handle.\<close>

lemma fire_arm: "fire e ad (arm ad n) w = runIfPresent e ad (HNum n) w"
proof (cases ad)
  case (PostMessageImpl rnd)
  have "runIfPresent e ad (HStr (decimal n)) w = runIfPresent e ad (HNum n) w"
    by (rule runIfPresent_key) simp
  with PostMessageImpl show ?thesis
    by (simp add: onGlobalMessage_def isStringAndStartsWith_def)
qed simp_all



section \<open>While no text is evaluated\<close>


lemma no_text_Nil: "no_text []"
  by (simp add: no_text_def)






















section \<open>Argument forwarding\<close>

text \<open>
  Claim C5: with each of the three adapters, \<open>setImmediate(f, a, b, c, ...)\<close> for a
  function \<open>f\<close> returns the current \<open>nextHandle\<close> and arms one trigger for it; when that
  trigger fires, exactly one execution is added to the log: \<open>f\<close> applied with receiver
  \<open>undefined\<close> to the argument list \<open>(a, b, c, ...)\<close> as it was given.
\<close>

theorem schedule_then_run:
  "fst (setImmediate ad (JFunction f # as) w) = nextHandle w \<and>
   armed (snd (setImmediate ad (JFunction f # as) w)) = armed w @ [arm ad (nextHandle w)] \<and>
   ran (fst (fire e ad (arm ad (nextHandle w)) (snd (setImmediate ad (JFunction f # as) w))))
     = ran w @ [(decimal (nextHandle w), Apply f JUndefined as)]"
proof -
  let ?w1 = "snd (setImmediate ad (JFunction f # as) w)"
  have t: "tasksByHandle ?w1 (to_key (HNum (nextHandle w))) = Some \<lparr>handler = JFunction f, args = as\<rparr>"
    using setImmediate_task [of ad "JFunction f # as" w] by simp
  have "ran (fst (runIfPresent e ad (HNum (nextHandle w)) ?w1))
          = ran ?w1 @ (to_key (HNum (nextHandle w)), body \<lparr>handler = JFunction f, args = as\<rparr>)
              # inner (fst (behaviour e (body \<lparr>handler = JFunction f, args = as\<rparr>) ?w1))"
    using t by (rule runIfPresent_Own_ran)
  then show ?thesis
    by (simp add: fire_arm setImmediate_handle setImmediate_armed setImmediate_ran body_function
          behaviour_Apply)
qed


text \<open>\<open>setImmediate(f, 1, "b", true)\<close> as the first call, with the timer adapter.\<close>

theorem schedule_then_run_witness:
  "fst (setImmediate SetTimeoutImpl [JFunction 0, JNumber 1, JString ''b'', JBool True] fresh) = 1 \<and>
   ran (fst (fire quiet SetTimeoutImpl (Timeout 1)
          (snd (setImmediate SetTimeoutImpl [JFunction 0, JNumber 1, JString ''b'', JBool True] fresh))))
     = [(''1'', Apply 0 JUndefined [JNumber 1, JString ''b'', JBool True])]"
proof -
  have n: "nextHandle fresh = 1" "ran fresh = []" "arm SetTimeoutImpl 1 = Timeout 1"
    by (simp_all add: fresh_def)
  from schedule_then_run [of SetTimeoutImpl 0 "[JNumber 1, JString ''b'', JBool True]" fresh quiet]
  show ?thesis by (simp add: n decimal_Suc_0)
qed

section \<open>The broadcast listener\<close>

text \<open>
  Claim C7: with the broadcast adapter, a message event whose source is not this global
  object, or whose data is not a string that starts with the prefix, leaves the state as
  it is and returns normally: no task runs, nothing is thrown. A message of this global
  object whose data is the prefix followed by \<open>k\<close> is \<open>runIfPresent(k)\<close>.
\<close>

theorem onGlobalMessage_filter:
  "(source ev \<noteq> ThisGlobal \<or> (\<forall>k. data ev \<noteq> JString (MESSAGE_PREFIX rnd @ k)) \<longrightarrow>
      fire e (PostMessageImpl rnd) (WindowMessage ev) w = (w, Normal)) \<and>
   fire e (PostMessageImpl rnd)
     (WindowMessage \<lparr>source = ThisGlobal, data = JString (MESSAGE_PREFIX rnd @ k)\<rparr>) w
     = runIfPresent e (PostMessageImpl rnd) (HStr k) w"
proof -
  have "fire e (PostMessageImpl rnd) (WindowMessage ev) w = (w, Normal)"
    if "source ev \<noteq> ThisGlobal \<or> (\<forall>k. data ev \<noteq> JString (MESSAGE_PREFIX rnd @ k))"
  proof (cases "source ev = ThisGlobal \<and> isStringAndStartsWith (data ev) (MESSAGE_PREFIX rnd)")
    case False
    then show ?thesis by (auto simp: onGlobalMessage_def)
  next
    case True
    then obtain s where s: "data ev = JString s"
      and t: "take (length (MESSAGE_PREFIX rnd)) s = MESSAGE_PREFIX rnd"
      by (auto simp: isStringAndStartsWith_def split: jsval.splits)
    from t have "s = MESSAGE_PREFIX rnd @ drop (length (MESSAGE_PREFIX rnd)) s"
      by (metis append_take_drop_id)
    with s that True show ?thesis by metis
  qed
  then show ?thesis
    by (simp add: onGlobalMessage_def isStringAndStartsWith_def)
qed

theorem onGlobalMessage_filter_witness:
  "source \<lparr>source = Elsewhere 3, data = JString (MESSAGE_PREFIX ''0.5'' @ ''1'')\<rparr> \<noteq> ThisGlobal \<and>
   fire quiet (PostMessageImpl ''0.5'')
     (WindowMessage \<lparr>source = Elsewhere 3, data = JString (MESSAGE_PREFIX ''0.5'' @ ''1'')\<rparr>) one_broadcast
     = (one_broadcast, Normal) \<and>
   (\<forall>k. data \<lparr>source = ThisGlobal, data = JString ''1''\<rparr> \<noteq> JString (MESSAGE_PREFIX ''0.5'' @ k)) \<and>
   fire quiet (PostMessageImpl ''0.5'')
     (WindowMessage \<lparr>source = ThisGlobal, data = JString ''1''\<rparr>) one_broadcast
     = (one_broadcast, Normal) \<and>
   tasksByHandle one_broadcast ''1'' \<noteq> None"
proof -
  have a: "source \<lparr>source = Elsewhere 3, data = JString (MESSAGE_PREFIX ''0.5'' @ ''1'')\<rparr> \<noteq> ThisGlobal"
    by simp
  have b: "\<forall>k. data \<lparr>source = ThisGlobal, data = JString ''1''\<rparr> \<noteq> JString (MESSAGE_PREFIX ''0.5'' @ k)"
    by (simp add: MESSAGE_PREFIX_def)
  have c: "tasksByHandle one_broadcast ''1'' \<noteq> None"
    by (simp add: one_broadcast_def eval_defs)
  from a onGlobalMessage_filter
         [of "\<lparr>source = Elsewhere 3, data = JString (MESSAGE_PREFIX ''0.5'' @ ''1'')\<rparr>"
             "''0.5''" quiet one_broadcast]
  have d: "fire quiet (PostMessageImpl ''0.5'')
     (WindowMessage \<lparr>source = Elsewhere 3, data = JString (MESSAGE_PREFIX ''0.5'' @ ''1'')\<rparr>) one_broadcast
     = (one_broadcast, Normal)"
    by blast
  from b onGlobalMessage_filter
         [of "\<lparr>source = ThisGlobal, data = JString ''1''\<rparr>" "''0.5''" quiet one_broadcast]
  have f: "fire quiet (PostMessageImpl ''0.5'')
     (WindowMessage \<lparr>source = ThisGlobal, data = JString ''1''\<rparr>) one_broadcast
     = (one_broadcast, Normal)"
    by blast
  from a b c d f show ?thesis by blast
qed


section \<open>The handle in the broadcast payload\<close>

text \<open>
  Claim C10: with the broadcast adapter, \<open>setImmediate\<close> returns the current
  \<open>nextHandle\<close>, \<open>h\<close>, and posts, as a message of this global object, the prefix followed
  by the decimal numeral of \<open>h\<close>. The listener accepts this payload and cuts exactly
  that numeral out of it; looking it up finds the task that was stored under the number
  \<open>h\<close>; in every state, delivering the message is \<open>runIfPresent\<close> of the number \<open>h\<close>;
  delivered right away it executes that task (and after it only what the task's own text
  runs inside the closure: nothing in the case of a function); and no other number has the
  same numeral.
\<close>

theorem broadcast_payload_roundtrip:
  "fst (setImmediate (PostMessageImpl rnd) a w) = nextHandle w \<and>
   last (armed (snd (setImmediate (PostMessageImpl rnd) a w)))
     = WindowMessage \<lparr>source = ThisGlobal,
                      data = JString (MESSAGE_PREFIX rnd @ decimal (nextHandle w))\<rparr> \<and>
   isStringAndStartsWith (JString (MESSAGE_PREFIX rnd @ decimal (nextHandle w))) (MESSAGE_PREFIX rnd) \<and>
   drop (length (MESSAGE_PREFIX rnd)) (MESSAGE_PREFIX rnd @ decimal (nextHandle w))
     = decimal (nextHandle w) \<and>
   lookup (snd (setImmediate (PostMessageImpl rnd) a w)) (to_key (HStr (decimal (nextHandle w))))
     = Own \<lparr>handler = (case a of [] \<Rightarrow> JUndefined | x # _ \<Rightarrow> x), args = drop 1 a\<rparr> \<and>
   fire e (PostMessageImpl rnd) (arm (PostMessageImpl rnd) (nextHandle w)) w'
     = runIfPresent e (PostMessageImpl rnd) (HNum (nextHandle w)) w' \<and>
   ran (fst (fire e (PostMessageImpl rnd) (arm (PostMessageImpl rnd) (nextHandle w))
              (snd (setImmediate (PostMessageImpl rnd) a w))))
     = ran w @ (decimal (nextHandle w),
                body \<lparr>handler = (case a of [] \<Rightarrow> JUndefined | x # _ \<Rightarrow> x), args = drop 1 a\<rparr>)
             # inner (fst (behaviour e
                             (body \<lparr>handler = (case a of [] \<Rightarrow> JUndefined | x # _ \<Rightarrow> x),
                                    args = drop 1 a\<rparr>)
                             (snd (setImmediate (PostMessageImpl rnd) a w)))) \<and>
   (\<forall>f as. a = JFunction f # as \<longrightarrow>
      ran (fst (fire e (PostMessageImpl rnd) (arm (PostMessageImpl rnd) (nextHandle w))
                 (snd (setImmediate (PostMessageImpl rnd) a w))))
        = ran w @ [(decimal (nextHandle w), Apply f JUndefined as)]) \<and>
   (m \<noteq> nextHandle w \<longrightarrow> decimal m \<noteq> decimal (nextHandle w))"
proof -
  let ?ad = "PostMessageImpl rnd"
  let ?w1 = "snd (setImmediate ?ad a w)"
  let ?t = "\<lparr>handler = (case a of [] \<Rightarrow> JUndefined | x # _ \<Rightarrow> x), args = drop 1 a\<rparr>"
  have t: "tasksByHandle ?w1 (to_key (HNum (nextHandle w))) = Some ?t"
    using setImmediate_task [of ?ad a w] by simp
  have p1: "fst (setImmediate ?ad a w) = nextHandle w" by (rule setImmediate_handle)
  have p2: "last (armed ?w1) = WindowMessage \<lparr>source = ThisGlobal,
                      data = JString (MESSAGE_PREFIX rnd @ decimal (nextHandle w))\<rparr>"
    by (simp add: setImmediate_armed)
  have p3: "isStringAndStartsWith (JString (MESSAGE_PREFIX rnd @ decimal (nextHandle w))) (MESSAGE_PREFIX rnd)"
    by (simp add: isStringAndStartsWith_def)
  have p4: "drop (length (MESSAGE_PREFIX rnd)) (MESSAGE_PREFIX rnd @ decimal (nextHandle w))
              = decimal (nextHandle w)"
    by simp
  have p5: "lookup ?w1 (to_key (HStr (decimal (nextHandle w)))) = Own ?t"
    using t by (simp add: lookup_Own)
  have p6: "fire e ?ad (arm ?ad (nextHandle w)) w' = runIfPresent e ?ad (HNum (nextHandle w)) w'"
    by (rule fire_arm)
  have "ran (fst (runIfPresent e ?ad (HNum (nextHandle w)) ?w1))
          = ran ?w1 @ (to_key (HNum (nextHandle w)), body ?t) # inner (fst (behaviour e (body ?t) ?w1))"
    using t by (rule runIfPresent_Own_ran)
  then have p7: "ran (fst (fire e ?ad (arm ?ad (nextHandle w)) ?w1))
                   = ran w @ (decimal (nextHandle w), body ?t) # inner (fst (behaviour e (body ?t) ?w1))"
    by (simp only: fire_arm setImmediate_ran to_key.simps)
  have p8: "\<forall>f as. a = JFunction f # as \<longrightarrow>
      ran (fst (fire e ?ad (arm ?ad (nextHandle w)) ?w1))
        = ran w @ [(decimal (nextHandle w), Apply f JUndefined as)]"
  proof (intro allI impI)
    fix f as
    assume "a = JFunction f # as"
    then have "body ?t = Apply f JUndefined as" by (simp add: body_def)
    with p7 show "ran (fst (fire e ?ad (arm ?ad (nextHandle w)) ?w1))
        = ran w @ [(decimal (nextHandle w), Apply f JUndefined as)]"
      by (simp add: behaviour_Apply)
  qed
  have p9: "m \<noteq> nextHandle w \<longrightarrow> decimal m \<noteq> decimal (nextHandle w)"
    using decimal_inj [of m "nextHandle w"] by blast
  from p1 p2 p3 p4 p5 p6 p7 p8 p9 show ?thesis by (intro conjI)
qed

theorem broadcast_payload_roundtrip_witness:
  "fst (setImmediate (PostMessageImpl ''0.5'') [JFunction 0] fresh) = 1 \<and>
   armed one_broadcast
     = [WindowMessage \<lparr>source = ThisGlobal, data = JString ''com.bn.NobleJS.setImmediate0.51''\<rparr>] \<and>
   ran (fst (fire quiet (PostMessageImpl ''0.5'')
               (WindowMessage \<lparr>source = ThisGlobal, data = JString ''com.bn.NobleJS.setImmediate0.51''\<rparr>)
               one_broadcast))
     = [(''1'', Apply 0 JUndefined [])] \<and>
   (2::nat) \<noteq> nextHandle fresh \<and> decimal 2 \<noteq> decimal (nextHandle fresh)"
proof -
  note k = broadcast_payload_roundtrip [of "''0.5''" "[JFunction 0]" fresh quiet fresh 2]
  have n: "nextHandle fresh = 1" by (simp add: fresh_def)
  have a: "(2::nat) \<noteq> nextHandle fresh" by (simp add: n)
  have m: "arm (PostMessageImpl ''0.5'') (nextHandle fresh)
             = WindowMessage \<lparr>source = ThisGlobal, data = JString ''com.bn.NobleJS.setImmediate0.51''\<rparr>"
    by (simp add: n MESSAGE_PREFIX_def decimal_Suc_0)
  from k have "fst (setImmediate (PostMessageImpl ''0.5'') [JFunction 0] fresh) = 1"
    by (simp add: n)
  moreover have "armed one_broadcast
     = [WindowMessage \<lparr>source = ThisGlobal, data = JString ''com.bn.NobleJS.setImmediate0.51''\<rparr>]"
    by (simp add: one_broadcast_def setImmediate_armed fresh_def MESSAGE_PREFIX_def decimal_Suc_0)
  moreover from k have "ran (fst (fire quiet (PostMessageImpl ''0.5'')
               (arm (PostMessageImpl ''0.5'') (nextHandle fresh)) one_broadcast))
     = ran fresh @ [(decimal (nextHandle fresh), Apply 0 JUndefined [])]"
    by (simp add: one_broadcast_def body_function behaviour_Apply)
  then have "ran (fst (fire quiet (PostMessageImpl ''0.5'')
               (WindowMessage \<lparr>source = ThisGlobal, data = JString ''com.bn.NobleJS.setImmediate0.51''\<rparr>)
               one_broadcast))
     = [(''1'', Apply 0 JUndefined [])]"
    by (simp only: m) (simp add: n fresh_def decimal_Suc_0)
  moreover from k a have "decimal 2 \<noteq> decimal (nextHandle fresh)" by blast
  ultimately show ?thesis using a by blast
qed



section \<open>Handles\<close>





text \<open>
  Evaluated text is not bound by this: \<open>setImmediate("nextHandle = 1")\<close> returns 1, its
  run assigns the counter, and the next call returns 1 again.
\<close>

theorem handle_reissued_by_text:
  "fst (setImmediate SetTimeoutImpl [reset_text] fresh) = 1 \<and>
   snd (fire texts SetTimeoutImpl (Timeout 1) reset_timer) = Normal \<and>
   ran (fst (fire texts SetTimeoutImpl (Timeout 1) reset_timer)) = [(''1'', Eval reset_text)] \<and>
   fst (setImmediate SetTimeoutImpl [JFunction 0] (fst (fire texts SetTimeoutImpl (Timeout 1) reset_timer))) = 1"
  by (simp add: reset_timer_def texts_def reset_text_def eval_defs)

section \<open>Facts about the installation\<close>

lemma global_get_set: "global_get (global_set name v g) name' = (if name' = name then v else global_get g name')"
  by (simp add: global_get_def global_set_def split: option.splits)

lemma global_get_postMessage: "global_get (fst (host_postMessage d g)) name = global_get g name"
  by (simp add: host_postMessage_def global_get_def split: option.splits)

lemma canUsePostMessage_get: "global_get (fst (canUsePostMessage g)) name = global_get g name"
  by (simp add: canUsePostMessage_def Let_def split_beta global_get_set global_get_postMessage)

lemma global_set_fields:
  "postMessage_is_synchronous (global_set name v g) = postMessage_is_synchronous g"
  "proto (global_set name v g) = proto g"
  "math_random (global_set name v g) = math_random g"
  by (simp_all add: global_set_def)

lemma canUsePostMessage_answer:
  "snd (canUsePostMessage g) =
     (truthy (global_get g ''postMessage'') \<and> \<not> truthy (global_get g ''importScripts'')
      \<and> \<not> postMessage_is_synchronous g)"
  by (auto simp: canUsePostMessage_def Let_def split_beta host_postMessage_def global_get_set
      global_set_fields)

lemma canUsePostMessage_proto: "proto (fst (canUsePostMessage g)) = proto g"
  by (simp add: canUsePostMessage_def Let_def split_beta host_postMessage_def global_set_def)

lemma canUsePostMessage_random: "math_random (fst (canUsePostMessage g)) = math_random g"
  by (simp add: canUsePostMessage_def Let_def split_beta host_postMessage_def global_set_def)


lemma attached_attach:
  "attached t (attach t name v g) name' = (if name' = name then Some v else attached t g name')"
  by (cases t) simp_all

lemma attached_listeners: "attached t (g\<lparr>listeners := l\<rparr>) name = attached t g name"
  by (cases t) simp_all

lemma install_skip: "truthy (global_get g ''setImmediate'') \<Longrightarrow> install g = (g, Normal)"
  by (simp add: install_def)

lemma install_ms:
  "\<not> truthy (global_get g ''setImmediate'') \<Longrightarrow> hasMicrosoftImplementation g \<Longrightarrow>
     snd (install g) = Normal \<and>
     attached (attachTo g) (fst (install g)) ''setImmediate'' = Some (global_get g ''msSetImmediate'')"
  by (simp add: install_def Let_def aliasMicrosoftImplementation_def attached_attach)

lemma install_channel:
  "\<not> truthy (global_get g ''setImmediate'') \<Longrightarrow> \<not> hasMicrosoftImplementation g \<Longrightarrow>
   canUseMessageChannel g \<Longrightarrow>
     snd (install g) = Normal \<and>
     attached (attachTo g) (fst (install g)) ''setImmediate'' = Some (Lib (SetImmediate MessageChannelImpl)) \<and>
     attached (attachTo g) (fst (install g)) ''clearImmediate'' = Some (Lib TasksRemove)"
  by (simp add: install_def Let_def installMessageChannelImplementation_def attached_attach)

lemma install_post:
  assumes "\<not> truthy (global_get g ''setImmediate'')" "\<not> hasMicrosoftImplementation g"
    "\<not> canUseMessageChannel g" "snd (canUsePostMessage g)"
    "truthy (global_get g ''addEventListener'') \<or> truthy (global_get g ''attachEvent'')"
  shows "snd (install g) = Normal \<and>
     attached (attachTo g) (fst (install g)) ''setImmediate''
       = Some (Lib (SetImmediate (PostMessageImpl (math_random g)))) \<and>
     attached (attachTo g) (fst (install g)) ''clearImmediate'' = Some (Lib TasksRemove)"
proof -
  obtain g1 where p: "canUsePostMessage g = (g1, True)"
    using assms(4) by (cases "canUsePostMessage g") simp
  then have g1: "g1 = fst (canUsePostMessage g)" by simp
  have get: "global_get g1 name = global_get g name" for name
    unfolding g1 by (rule canUsePostMessage_get)
  have rnd: "math_random g1 = math_random g" unfolding g1 by (rule canUsePostMessage_random)
  from assms(1,2,3,5) p show ?thesis
    by (auto simp: install_def Let_def installPostMessageImplementation_def get rnd
        attached_attach attached_listeners)
qed

lemma install_timer:
  assumes "\<not> truthy (global_get g ''setImmediate'')" "\<not> hasMicrosoftImplementation g"
    "\<not> canUseMessageChannel g" "\<not> snd (canUsePostMessage g)"
  shows "snd (install g) = Normal \<and>
     attached (attachTo g) (fst (install g)) ''setImmediate'' = Some (Lib (SetImmediate SetTimeoutImpl)) \<and>
     attached (attachTo g) (fst (install g)) ''clearImmediate'' = Some (Lib TasksRemove)"
proof -
  obtain g1 where p: "canUsePostMessage g = (g1, False)"
    using assms(4) by (cases "canUsePostMessage g") simp
  from assms(1,2,3) p show ?thesis
    by (simp add: install_def Let_def installSetTimeoutImplementation_def attached_attach)
qed

lemma global_get_attach:
  "name' \<noteq> name \<Longrightarrow> global_get (attach t name v g) name' = global_get g name'"
  by (cases t) (simp_all add: global_get_def split: option.splits)

lemma global_get_listeners: "global_get (g\<lparr>listeners := l\<rparr>) name = global_get g name"
  by (simp add: global_get_def split: option.splits)

lemma install_ms_clear:
  "\<not> truthy (global_get g ''setImmediate'') \<Longrightarrow> hasMicrosoftImplementation g \<Longrightarrow>
     attached (attachTo g) (fst (install g)) ''clearImmediate'' = Some (global_get g ''msClearImmediate'')"
  by (simp add: install_def Let_def aliasMicrosoftImplementation_def attached_attach global_get_attach)

lemma install_frame:
  assumes n: "name \<noteq> ''setImmediate''" "name \<noteq> ''clearImmediate''"
  shows "global_get (fst (install g)) name = global_get g name"
proof (cases "truthy (global_get g ''setImmediate'')")
  case True
  then show ?thesis by (simp add: install_def)
next
  case ns: False
  show ?thesis
  proof (cases "hasMicrosoftImplementation g")
    case True
    with ns n show ?thesis
      by (simp add: install_def Let_def aliasMicrosoftImplementation_def global_get_attach)
  next
    case nm: False
    show ?thesis
    proof (cases "canUseMessageChannel g")
      case True
      with ns nm n show ?thesis
        by (simp add: install_def Let_def installMessageChannelImplementation_def global_get_attach)
    next
      case nc: False
      obtain g1 b where p: "canUsePostMessage g = (g1, b)" by (cases "canUsePostMessage g")
      then have g1: "g1 = fst (canUsePostMessage g)" by simp
      have get: "global_get g1 name = global_get g name" for name
        unfolding g1 by (rule canUsePostMessage_get)
      from ns nm nc n p show ?thesis
        by (cases b)
           (auto simp: install_def Let_def installPostMessageImplementation_def
              installSetTimeoutImplementation_def global_get_attach global_get_listeners get)
    qed
  qed
qed

lemma install_Normal:
  assumes "truthy (global_get g ''addEventListener'') \<or> truthy (global_get g ''attachEvent'')"
  shows "snd (install g) = Normal"
proof -
  obtain g1 b where p: "canUsePostMessage g = (g1, b)" by (cases "canUsePostMessage g")
  then have g1: "g1 = fst (canUsePostMessage g)" by simp
  have get: "global_get g1 name = global_get g name" for name
    unfolding g1 by (rule canUsePostMessage_get)
  from assms p show ?thesis
    by (cases b) (auto simp: install_def Let_def installPostMessageImplementation_def get)
qed

lemmas host_defs = global_get_def hasMicrosoftImplementation_def canUseMessageChannel_def
  attachTo_def

section \<open>The probe of postMessage\<close>

text \<open>
  Claim C9: whatever \<open>global.onmessage\<close> was before \<open>canUsePostMessage\<close>, it is the
  same after the function has returned, whether the answer is true or false.
\<close>

theorem probe_restores_onmessage:
  "global_get (fst (canUsePostMessage g)) ''onmessage'' = global_get g ''onmessage''"
  by (rule canUsePostMessage_get)

text \<open>
  On the browser with a listener of the page the probe answers true, has posted its one
  empty message, and the listener is back; on the synchronous host it answers false.
\<close>

theorem probe_restores_onmessage_witness:
  "snd (canUsePostMessage browser_host) \<and>
   posted (fst (canUsePostMessage browser_host)) = [JString []] \<and>
   global_get (fst (canUsePostMessage browser_host)) ''onmessage'' = Host (JFunction 9) \<and>
   \<not> snd (canUsePostMessage ie8_host) \<and>
   global_get (fst (canUsePostMessage ie8_host)) ''onmessage'' = Host JUndefined"
proof -
  have a: "snd (canUsePostMessage browser_host)" "\<not> snd (canUsePostMessage ie8_host)"
    by (simp_all add: canUsePostMessage_answer) (simp_all add: browser_host_def ie8_host_def host_defs)
  have b: "posted (fst (canUsePostMessage browser_host)) = [JString []]"
    by (simp add: canUsePostMessage_def host_postMessage_def global_set_def Let_def browser_host_def ie8_host_def host_defs)
  have c: "global_get browser_host ''onmessage'' = Host (JFunction 9)"
    "global_get ie8_host ''onmessage'' = Host JUndefined"
    by (simp_all add: browser_host_def ie8_host_def host_defs)
  from probe_restores_onmessage [of browser_host] c
  have d: "global_get (fst (canUsePostMessage browser_host)) ''onmessage'' = Host (JFunction 9)"
    by simp
  from probe_restores_onmessage [of ie8_host] c
  have f: "global_get (fst (canUsePostMessage ie8_host)) ''onmessage'' = Host JUndefined"
    by simp
  from a b d f show ?thesis by blast
qed

section \<open>The order of the adapters\<close>

text \<open>
  Claim C6: when the installation takes place (no truthy \<open>global.setImmediate\<close>), the
  first of these that applies decides what is attached as \<open>setImmediate\<close>: the Microsoft
  pair, then \<open>MessageChannel\<close> (whatever else the host has), then a \<open>postMessage\<close>
  that passes its probe (the listener registered with one of the two registration
  functions), then the timer. A test that fails only passes on to the next one: without
  a \<open>postMessage\<close> the probe answers false, and the installation returns normally with
  the timer adapter.
\<close>

theorem tier_order:
  "\<not> truthy (global_get g ''setImmediate'') \<longrightarrow>
     (hasMicrosoftImplementation g \<longrightarrow>
        snd (install g) = Normal \<and>
        attached (attachTo g) (fst (install g)) ''setImmediate'' = Some (global_get g ''msSetImmediate'')) \<and>
     (\<not> hasMicrosoftImplementation g \<and> canUseMessageChannel g \<longrightarrow>
        snd (install g) = Normal \<and>
        attached (attachTo g) (fst (install g)) ''setImmediate''
          = Some (Lib (SetImmediate MessageChannelImpl))) \<and>
     (\<not> hasMicrosoftImplementation g \<and> \<not> canUseMessageChannel g \<and> snd (canUsePostMessage g) \<and>
      (truthy (global_get g ''addEventListener'') \<or> truthy (global_get g ''attachEvent'')) \<longrightarrow>
        snd (install g) = Normal \<and>
        attached (attachTo g) (fst (install g)) ''setImmediate''
          = Some (Lib (SetImmediate (PostMessageImpl (math_random g))))) \<and>
     (\<not> hasMicrosoftImplementation g \<and> \<not> canUseMessageChannel g \<and> \<not> snd (canUsePostMessage g) \<longrightarrow>
        snd (install g) = Normal \<and>
        attached (attachTo g) (fst (install g)) ''setImmediate''
          = Some (Lib (SetImmediate SetTimeoutImpl))) \<and>
     (\<not> truthy (global_get g ''postMessage'') \<longrightarrow> \<not> snd (canUsePostMessage g))"
  using install_ms [of g] install_channel [of g] install_post [of g] install_timer [of g]
    canUsePostMessage_answer [of g]
  by blast


theorem tier_order_witness:
  "(\<not> truthy (global_get ie10_host ''setImmediate'') \<and> hasMicrosoftImplementation ie10_host \<and>
    canUseMessageChannel ie10_host \<and>
    attached (attachTo ie10_host) (fst (install ie10_host)) ''setImmediate'' = Some (Host (JFunction 5))) \<and>
   (\<not> truthy (global_get channel_host ''setImmediate'') \<and> \<not> hasMicrosoftImplementation channel_host \<and>
    canUseMessageChannel channel_host \<and> snd (canUsePostMessage channel_host) \<and>
    attached (attachTo channel_host) (fst (install channel_host)) ''setImmediate''
      = Some (Lib (SetImmediate MessageChannelImpl))) \<and>
   (\<not> truthy (global_get browser_host ''setImmediate'') \<and> \<not> hasMicrosoftImplementation browser_host \<and>
    \<not> canUseMessageChannel browser_host \<and> snd (canUsePostMessage browser_host) \<and>
    truthy (global_get browser_host ''addEventListener'') \<and>
    attached (attachTo browser_host) (fst (install browser_host)) ''setImmediate''
      = Some (Lib (SetImmediate (PostMessageImpl ''0.5'')))) \<and>
   (\<not> truthy (global_get ie8_host ''setImmediate'') \<and> \<not> hasMicrosoftImplementation ie8_host \<and>
    \<not> canUseMessageChannel ie8_host \<and> \<not> snd (canUsePostMessage ie8_host) \<and>
    attached (attachTo ie8_host) (fst (install ie8_host)) ''setImmediate''
      = Some (Lib (SetImmediate SetTimeoutImpl))) \<and>
   (\<not> truthy (global_get timer_host ''setImmediate'') \<and> \<not> hasMicrosoftImplementation timer_host \<and>
    \<not> canUseMessageChannel timer_host \<and> \<not> truthy (global_get timer_host ''postMessage'') \<and>
    snd (install timer_host) = Normal \<and>
    attached (attachTo timer_host) (fst (install timer_host)) ''setImmediate''
      = Some (Lib (SetImmediate SetTimeoutImpl)))"
proof -
  have i1: "\<not> truthy (global_get ie10_host ''setImmediate'')" "hasMicrosoftImplementation ie10_host"
    "canUseMessageChannel ie10_host" "global_get ie10_host ''msSetImmediate'' = Host (JFunction 5)"
    by (simp_all add: ie10_host_def host_defs)
  have c1: "\<not> truthy (global_get channel_host ''setImmediate'')"
    "\<not> hasMicrosoftImplementation channel_host" "canUseMessageChannel channel_host"
    "snd (canUsePostMessage channel_host)"
    by (simp_all add: canUsePostMessage_answer) (simp_all add: channel_host_def host_defs)
  have b1: "\<not> truthy (global_get browser_host ''setImmediate'')"
    "\<not> hasMicrosoftImplementation browser_host" "\<not> canUseMessageChannel browser_host"
    "snd (canUsePostMessage browser_host)" "truthy (global_get browser_host ''addEventListener'')"
    "math_random browser_host = ''0.5''"
    by (simp_all add: canUsePostMessage_answer) (simp_all add: browser_host_def host_defs)
  have e1: "\<not> truthy (global_get ie8_host ''setImmediate'')"
    "\<not> hasMicrosoftImplementation ie8_host" "\<not> canUseMessageChannel ie8_host"
    "\<not> snd (canUsePostMessage ie8_host)"
    by (simp_all add: canUsePostMessage_answer) (simp_all add: ie8_host_def host_defs)
  have t1: "\<not> truthy (global_get timer_host ''setImmediate'')"
    "\<not> hasMicrosoftImplementation timer_host" "\<not> canUseMessageChannel timer_host"
    "\<not> truthy (global_get timer_host ''postMessage'')"
    by (simp_all add: timer_host_def host_defs)
  from tier_order [of ie10_host] i1
  have i2: "attached (attachTo ie10_host) (fst (install ie10_host)) ''setImmediate'' = Some (Host (JFunction 5))"
    by simp
  from tier_order [of channel_host] c1
  have c2: "attached (attachTo channel_host) (fst (install channel_host)) ''setImmediate''
      = Some (Lib (SetImmediate MessageChannelImpl))"
    by blast
  from tier_order [of browser_host] b1
  have b2: "attached (attachTo browser_host) (fst (install browser_host)) ''setImmediate''
      = Some (Lib (SetImmediate (PostMessageImpl ''0.5'')))"
    by simp
  from tier_order [of ie8_host] e1
  have e2: "attached (attachTo ie8_host) (fst (install ie8_host)) ''setImmediate''
      = Some (Lib (SetImmediate SetTimeoutImpl))"
    by blast
  from tier_order [of timer_host] t1
  have t2: "snd (install timer_host) = Normal \<and>
    attached (attachTo timer_host) (fst (install timer_host)) ''setImmediate''
      = Some (Lib (SetImmediate SetTimeoutImpl))"
    by blast
  from i1 i2 c1 c2 b1 b2 e1 e2 t1 t2 show ?thesis by blast
qed


section \<open>Skipping the installation\<close>

text \<open>
  Claim C8, as far as the code goes: the installation is skipped when
  \<open>global.setImmediate\<close> is truthy, and then the host is left exactly as it was;
  \<open>clearImmediate\<close> is not looked at. Otherwise, when the installation returns
  normally, the object chosen by \<open>attachTo\<close> has either the Microsoft pair under the
  two names, or the closure of exactly one adapter as \<open>setImmediate\<close> and
  \<open>tasks.remove\<close> as \<open>clearImmediate\<close>. No other property of the global object reads
  differently afterwards, and the installation returns normally whenever the host has
  \<open>addEventListener\<close> or \<open>attachEvent\<close>.
\<close>

theorem install_skipped_or_attached:
  "(truthy (global_get g ''setImmediate'') \<longrightarrow> install g = (g, Normal)) \<and>
   (\<not> truthy (global_get g ''setImmediate'') \<and> snd (install g) = Normal \<longrightarrow>
      (hasMicrosoftImplementation g \<and>
         attached (attachTo g) (fst (install g)) ''setImmediate'' = Some (global_get g ''msSetImmediate'') \<and>
         attached (attachTo g) (fst (install g)) ''clearImmediate'' = Some (global_get g ''msClearImmediate''))
      \<or> (\<not> hasMicrosoftImplementation g \<and>
         (\<exists>ad. attached (attachTo g) (fst (install g)) ''setImmediate'' = Some (Lib (SetImmediate ad))) \<and>
         attached (attachTo g) (fst (install g)) ''clearImmediate'' = Some (Lib TasksRemove))) \<and>
   (name \<noteq> ''setImmediate'' \<and> name \<noteq> ''clearImmediate'' \<longrightarrow>
      global_get (fst (install g)) name = global_get g name) \<and>
   (truthy (global_get g ''addEventListener'') \<or> truthy (global_get g ''attachEvent'') \<longrightarrow>
      snd (install g) = Normal)"
proof -
  have a: "truthy (global_get g ''setImmediate'') \<longrightarrow> install g = (g, Normal)"
    by (simp add: install_skip)
  have b: "(hasMicrosoftImplementation g \<and>
         attached (attachTo g) (fst (install g)) ''setImmediate'' = Some (global_get g ''msSetImmediate'') \<and>
         attached (attachTo g) (fst (install g)) ''clearImmediate'' = Some (global_get g ''msClearImmediate''))
      \<or> (\<not> hasMicrosoftImplementation g \<and>
         (\<exists>ad. attached (attachTo g) (fst (install g)) ''setImmediate'' = Some (Lib (SetImmediate ad))) \<and>
         attached (attachTo g) (fst (install g)) ''clearImmediate'' = Some (Lib TasksRemove))"
    if ns: "\<not> truthy (global_get g ''setImmediate'')" and ok: "snd (install g) = Normal"
  proof (cases "hasMicrosoftImplementation g")
    case True
    with ns install_ms [of g] install_ms_clear [of g] show ?thesis by blast
  next
    case nm: False
    show ?thesis
    proof (cases "canUseMessageChannel g")
      case True
      with ns nm install_channel [of g] show ?thesis by blast
    next
      case nc: False
      show ?thesis
      proof (cases "snd (canUsePostMessage g)")
        case False
        with ns nm nc install_timer [of g] show ?thesis by blast
      next
        case True
        have "truthy (global_get g ''addEventListener'') \<or> truthy (global_get g ''attachEvent'')"
        proof (rule ccontr)
          assume no: "\<not> ?thesis"
          obtain g1 where p: "canUsePostMessage g = (g1, True)"
            using True by (cases "canUsePostMessage g") simp
          then have g1: "g1 = fst (canUsePostMessage g)" by simp
          have get: "global_get g1 name = global_get g name" for name
            unfolding g1 by (rule canUsePostMessage_get)
          from ns nm nc no p have "snd (install g) = Throw TypeError"
            by (simp add: install_def Let_def installPostMessageImplementation_def get)
          with ok show False by simp
        qed
        with ns nm nc True install_post [of g] show ?thesis by blast
      qed
    qed
  qed
  have c: "name \<noteq> ''setImmediate'' \<and> name \<noteq> ''clearImmediate'' \<longrightarrow>
      global_get (fst (install g)) name = global_get g name"
    by (simp add: install_frame)
  have d: "truthy (global_get g ''addEventListener'') \<or> truthy (global_get g ''attachEvent'') \<longrightarrow>
      snd (install g) = Normal"
    by (simp add: install_Normal)
  from a b c d show ?thesis by blast
qed

theorem install_skipped_or_attached_witness:
  "truthy (global_get half_native_host ''setImmediate'') \<and>
   install half_native_host = (half_native_host, Normal) \<and>
   \<not> truthy (global_get timer_host ''setImmediate'') \<and> snd (install timer_host) = Normal \<and>
   \<not> hasMicrosoftImplementation timer_host \<and>
   attached (attachTo timer_host) (fst (install timer_host)) ''clearImmediate'' = Some (Lib TasksRemove) \<and>
   ''onmessage'' \<noteq> ''setImmediate'' \<and> ''onmessage'' \<noteq> ''clearImmediate'' \<and>
   global_get (fst (install browser_host)) ''onmessage'' = Host (JFunction 9) \<and>
   truthy (global_get browser_host ''addEventListener'') \<and> snd (install browser_host) = Normal"
proof -
  have h1: "truthy (global_get half_native_host ''setImmediate'')" by (simp add: half_native_host_def host_defs)
  have t1: "\<not> truthy (global_get timer_host ''setImmediate'')" "\<not> hasMicrosoftImplementation timer_host"
    by (simp_all add: timer_host_def host_defs)
  have t0: "snd (install timer_host) = Normal"
    by (simp add: install_def canUsePostMessage_def Let_def installSetTimeoutImplementation_def timer_host_def host_defs)
  have b1: "truthy (global_get browser_host ''addEventListener'')"
    "global_get browser_host ''onmessage'' = Host (JFunction 9)"
    by (simp_all add: browser_host_def host_defs)
  have n: "''onmessage'' \<noteq> ''setImmediate''" "''onmessage'' \<noteq> ''clearImmediate''" by simp_all
  from install_skipped_or_attached [of half_native_host] h1
  have h2: "install half_native_host = (half_native_host, Normal)" by blast
  from install_skipped_or_attached [of timer_host] t1 t0
  have t2: "attached (attachTo timer_host) (fst (install timer_host)) ''clearImmediate'' = Some (Lib TasksRemove)"
    by blast
  from install_skipped_or_attached [of browser_host "''onmessage''"] n b1
  have b2: "global_get (fst (install browser_host)) ''onmessage'' = Host (JFunction 9)"
    "snd (install browser_host) = Normal"
    by simp_all
  from h1 h2 t1 t0 t2 n b1 b2 show ?thesis by blast
qed


text \<open>
  The claim as it is written fails on a page that has a \<open>setImmediate\<close> and no
  \<open>clearImmediate\<close> (and no Microsoft pair): there is no schedule-and-cancel pair, and
  the installation is skipped all the same.
\<close>

theorem install_skipped_counterexample:
  "install half_native_host = (half_native_host, Normal) \<and>
   global_get half_native_host ''clearImmediate'' = Host JUndefined \<and>
   \<not> hasMicrosoftImplementation half_native_host"
  by (simp add: install_def half_native_host_def host_defs)


end
